theory Spec2Isabelle
  imports Main "HOL-Library.Sublist"
begin

unbundle bit_operations_syntax

section \<open>Python values used by the script\<close>

text \<open>
  A Python \<open>str\<close> is a sequence of Unicode code points (numbers below \<open>0x110000\<close>,
  surrogates \<open>0xD800..0xDFFF\<close> included); \<open>len\<close> and slicing count code points.
  String literals of the source are ASCII and written with \<open>lit\<close>.
\<close>

type_synonym pystr = "nat list"

definition lit :: "string \<Rightarrow> pystr" where
  "lit s = map of_char s"

datatype pyval = PStr pystr | PBool bool | PInt int

text \<open>The dictionaries the methods return have literal keys.\<close>

type_synonym pydict = "string \<rightharpoonup> pyval"

datatype py_error =
    UnicodeEncodeError
  | KeyError string
  | AssertionError string
  | TypeError




section \<open>\<open>str.encode()\<close>: UTF-8\<close>

type_synonym byte = nat

definition is_surrogate :: "nat \<Rightarrow> bool" where
  "is_surrogate c = (0xD800 \<le> c \<and> c \<le> 0xDFFF)"

definition utf8_char :: "nat \<Rightarrow> byte list" where
  "utf8_char c =
     (if c < 0x80 then [c]
      else if c < 0x800 then [0xC0 + c div 64, 0x80 + c mod 64]
      else if c < 0x10000 then [0xE0 + c div 4096, 0x80 + c div 64 mod 64, 0x80 + c mod 64]
      else [0xF0 + c div 262144, 0x80 + c div 4096 mod 64, 0x80 + c div 64 mod 64,
            0x80 + c mod 64])"

text \<open>
  The default codec is UTF-8 with strict error handling: a surrogate code point has no
  encoding and \<open>encode\<close> raises \<open>UnicodeEncodeError\<close>.
\<close>

fun encode :: "pystr \<Rightarrow> py_error + byte list" where
  "encode [] = Inr []"
| "encode (c # cs) =
     (if is_surrogate c then Inl UnicodeEncodeError
      else case encode cs of Inl e \<Rightarrow> Inl e | Inr bs \<Rightarrow> Inr (utf8_char c @ bs))"

definition encodable :: "pystr \<Rightarrow> bool" where
  "encodable s = list_all (\<lambda>c. \<not> is_surrogate c) s"

section \<open>\<open>hashlib.sha256(...).hexdigest()\<close>: SHA-256 (FIPS 180-4)\<close>

text \<open>32-bit words are naturals below \<open>2 ^ 32\<close>; additions reduce modulo \<open>2 ^ 32\<close>.\<close>

type_synonym u32 = nat

definition add32 :: "u32 \<Rightarrow> u32 \<Rightarrow> u32" where
  "add32 x y = (x + y) mod 2 ^ 32"

definition rotr :: "nat \<Rightarrow> u32 \<Rightarrow> u32" where
  "rotr n x = x div 2 ^ n + (x mod 2 ^ n) * 2 ^ (32 - n)"

definition shr :: "nat \<Rightarrow> u32 \<Rightarrow> u32" where
  "shr n x = x div 2 ^ n"

definition not32 :: "u32 \<Rightarrow> u32" where
  "not32 x = 0xffffffff - x mod 2 ^ 32"

definition Ch :: "u32 \<Rightarrow> u32 \<Rightarrow> u32 \<Rightarrow> u32" where
  "Ch x y z = (x AND y) XOR (not32 x AND z)"

definition Maj :: "u32 \<Rightarrow> u32 \<Rightarrow> u32 \<Rightarrow> u32" where
  "Maj x y z = (x AND y) XOR (x AND z) XOR (y AND z)"

definition big_sigma0 :: "u32 \<Rightarrow> u32" where
  "big_sigma0 x = rotr 2 x XOR rotr 13 x XOR rotr 22 x"

definition big_sigma1 :: "u32 \<Rightarrow> u32" where
  "big_sigma1 x = rotr 6 x XOR rotr 11 x XOR rotr 25 x"

definition small_sigma0 :: "u32 \<Rightarrow> u32" where
  "small_sigma0 x = rotr 7 x XOR rotr 18 x XOR shr 3 x"

definition small_sigma1 :: "u32 \<Rightarrow> u32" where
  "small_sigma1 x = rotr 17 x XOR rotr 19 x XOR shr 10 x"

text \<open>
  The round constants (the first 32 bits of the fractional parts of the cube roots of the
  first 64 primes) and the initial hash value (likewise for the square roots of the first
  8 primes), in decimal.
\<close>

definition sha256_K :: "u32 list" where
  "sha256_K =
    [1116352408, 1899447441, 3049323471, 3921009573,
     961987163, 1508970993, 2453635748, 2870763221,
     3624381080, 310598401, 607225278, 1426881987,
     1925078388, 2162078206, 2614888103, 3248222580,
     3835390401, 4022224774, 264347078, 604807628,
     770255983, 1249150122, 1555081692, 1996064986,
     2554220882, 2821834349, 2952996808, 3210313671,
     3336571891, 3584528711, 113926993, 338241895,
     666307205, 773529912, 1294757372, 1396182291,
     1695183700, 1986661051, 2177026350, 2456956037,
     2730485921, 2820302411, 3259730800, 3345764771,
     3516065817, 3600352804, 4094571909, 275423344,
     430227734, 506948616, 659060556, 883997877,
     958139571, 1322822218, 1537002063, 1747873779,
     1955562222, 2024104815, 2227730452, 2361852424,
     2428436474, 2756734187, 3204031479, 3329325298]"

type_synonym sha_state = "u32 \<times> u32 \<times> u32 \<times> u32 \<times> u32 \<times> u32 \<times> u32 \<times> u32"

definition sha256_H0 :: sha_state where
  "sha256_H0 = (1779033703, 3144134277, 1013904242, 2773480762,
                1359893119, 2600822924, 528734635, 1541459225)"

definition be_bytes64 :: "nat \<Rightarrow> byte list" where
  "be_bytes64 n = map (\<lambda>i. (n div 256 ^ i) mod 256) [7, 6, 5, 4, 3, 2, 1, 0]"

text \<open>Padding: a \<open>0x80\<close> byte, zeros up to 56 modulo 64, the bit length on 8 bytes.\<close>

definition sha256_pad :: "byte list \<Rightarrow> byte list" where
  "sha256_pad m =
     m @ [0x80] @ replicate ((119 - length m mod 64) mod 64) 0 @ be_bytes64 (8 * length m)"

fun be_words :: "byte list \<Rightarrow> u32 list" where
  "be_words (a # b # c # d # bs) = (((a * 256 + b) * 256 + c) * 256 + d) # be_words bs"
| "be_words _ = []"

function blocks_of :: "u32 list \<Rightarrow> u32 list list" where
  "blocks_of ws = (if length ws < 16 then [] else take 16 ws # blocks_of (drop 16 ws))"
  by pat_completeness auto
termination
  by (relation "measure length") auto

definition schedule_step :: "u32 list \<Rightarrow> nat \<Rightarrow> u32 list" where
  "schedule_step w t =
     w @ [add32 (add32 (small_sigma1 (w ! (t - 2))) (w ! (t - 7)))
                (add32 (small_sigma0 (w ! (t - 15))) (w ! (t - 16)))]"

definition schedule :: "u32 list \<Rightarrow> u32 list" where
  "schedule block = foldl schedule_step block [16..<64]"

fun sha_round :: "sha_state \<Rightarrow> u32 \<times> u32 \<Rightarrow> sha_state" where
  "sha_round (a, b, c, d, e, f, g, h) (k, w) =
     (let t1 = add32 (add32 (add32 h (big_sigma1 e)) (Ch e f g)) (add32 k w);
          t2 = add32 (big_sigma0 a) (Maj a b c)
      in (add32 t1 t2, a, b, c, add32 d t1, e, f, g))"

fun add_state :: "sha_state \<Rightarrow> sha_state \<Rightarrow> sha_state" where
  "add_state (a, b, c, d, e, f, g, h) (a', b', c', d', e', f', g', h') =
     (add32 a a', add32 b b', add32 c c', add32 d d',
      add32 e e', add32 f f', add32 g g', add32 h h')"

definition compress :: "sha_state \<Rightarrow> u32 list \<Rightarrow> sha_state" where
  "compress H block = add_state H (foldl sha_round H (zip sha256_K (schedule block)))"

definition word_bytes :: "u32 \<Rightarrow> byte list" where
  "word_bytes w = [w div 2 ^ 24 mod 256, w div 2 ^ 16 mod 256, w div 2 ^ 8 mod 256, w mod 256]"

fun state_bytes :: "sha_state \<Rightarrow> byte list" where
  "state_bytes (a, b, c, d, e, f, g, h) = concat (map word_bytes [a, b, c, d, e, f, g, h])"

definition sha256 :: "byte list \<Rightarrow> byte list" where
  "sha256 m = state_bytes (foldl compress sha256_H0 (blocks_of (be_words (sha256_pad m))))"

text \<open>\<open>hexdigest\<close>: two lowercase hexadecimal digits per byte, as a \<open>str\<close>.\<close>

definition hex_digit :: "nat \<Rightarrow> nat" where
  "hex_digit n = (if n < 10 then 48 + n else 87 + n)"

definition hexdigest :: "byte list \<Rightarrow> pystr" where
  "hexdigest bs = concat (map (\<lambda>b. [hex_digit (b div 16), hex_digit (b mod 16)]) bs)"

section \<open>The class \<open>AuthenticationSimulator\<close>\<close>

record AuthenticationSimulator =
  api_key :: pystr
  api_secret :: pystr
  redirect_uri :: pystr
  token_endpoint :: pystr
  auth_portal :: pystr

text \<open>\<open>__init__\<close>: the five hard-coded attributes.\<close>

definition init :: AuthenticationSimulator where
  "init = \<lparr> api_key = lit ''test_api_key'',
            api_secret = lit ''test_api_secret'',
            redirect_uri = lit ''http://localhost:5000/api/auth/callback'',
            token_endpoint = lit ''https://authapi.flattrade.in/trade/apitoken'',
            auth_portal = lit ''https://auth.flattrade.in/'' \<rparr>"

text \<open>
  A method takes the object and returns what it returned or raised, together with the
  object as the call leaves it. The object may carry further attributes (the record's
  extension).
\<close>

definition generate_login_url ::
  "'a AuthenticationSimulator_scheme \<Rightarrow> (py_error + pydict) \<times> 'a AuthenticationSimulator_scheme" where
  "generate_login_url self =
     (if api_key self = [] \<or> redirect_uri self = []
      then (Inr [''error'' \<mapsto> PStr (lit ''Missing configuration'')], self)
      else
        let url = auth_portal self @ lit ''?app_key='' @ api_key self
                  @ lit ''&redirect_uri='' @ redirect_uri self
        in (Inr [''success'' \<mapsto> PBool True, ''loginUrl'' \<mapsto> PStr url], self))"

definition simulate_sha256_hashing ::
  "'a AuthenticationSimulator_scheme \<Rightarrow> pystr
   \<Rightarrow> (py_error + pydict) \<times> 'a AuthenticationSimulator_scheme" where
  "simulate_sha256_hashing self request_code =
     (let hash_input = api_key self @ request_code @ api_secret self
      in case encode hash_input of
           Inl e \<Rightarrow> (Inl e, self)
         | Inr bs \<Rightarrow>
             let hashed_secret = hexdigest (sha256 bs)
             in (Inr [''api_key'' \<mapsto> PStr (api_key self),
                      ''api_secret'' \<mapsto> PStr hashed_secret,
                      ''request_code'' \<mapsto> PStr request_code], self))"

definition validate_token_exchange ::
  "'a AuthenticationSimulator_scheme \<Rightarrow> pystr
   \<Rightarrow> (py_error + pydict) \<times> 'a AuthenticationSimulator_scheme" where
  "validate_token_exchange self request_code =
     (if request_code = []
      then (Inr [''error'' \<mapsto> PStr (lit ''No request code provided'')], self)
      else
        case simulate_sha256_hashing self request_code of
          (Inl e, self') \<Rightarrow> (Inl e, self')
        | (Inr token_data, self') \<Rightarrow>
            (Inr [''success'' \<mapsto> PBool True,
                  ''token'' \<mapsto> PStr (lit ''mock_token_'' @ take 8 request_code),
                  ''expires_in'' \<mapsto> PInt 86400,
                  ''status'' \<mapsto> PStr (lit ''Ok'')], self'))"


section \<open>Reference notions for the properties\<close>

text \<open>The UTF-8 byte sequence of a string without surrogates.\<close>

definition utf8_bytes :: "pystr \<Rightarrow> byte list" where
  "utf8_bytes s = concat (map utf8_char s)"

text \<open>The login URL in the specification's words.\<close>

definition login_url_spec :: "pystr \<Rightarrow> pystr \<Rightarrow> pystr \<Rightarrow> pystr" where
  "login_url_spec apiKey redirectUri authPortalBase =
     authPortalBase @ lit ''?app_key='' @ apiKey @ lit ''&redirect_uri='' @ redirectUri"

text \<open>
  The exchange secret in the specification's words: the three inputs, each UTF-8 encoded,
  concatenated in this order into one byte sequence, and the lowercase hexadecimal SHA-256
  digest of it.
\<close>

definition exchange_secret_spec :: "pystr \<Rightarrow> pystr \<Rightarrow> pystr \<Rightarrow> pystr" where
  "exchange_secret_spec apiKey requestCode apiSecret =
     hexdigest (sha256 (utf8_bytes apiKey @ utf8_bytes requestCode @ utf8_bytes apiSecret))"

text \<open>Two objects with the same five configuration attributes.\<close>

definition same_configuration ::
  "'a AuthenticationSimulator_scheme \<Rightarrow> 'b AuthenticationSimulator_scheme \<Rightarrow> bool" where
  "same_configuration s t =
     (api_key s = api_key t \<and> api_secret s = api_secret t \<and> redirect_uri s = redirect_uri t \<and>
      token_endpoint s = token_endpoint t \<and> auth_portal s = auth_portal t)"

text \<open>The lowercase hexadecimal digits \<open>0-9\<close>, \<open>a-f\<close>.\<close>

definition hex_chars :: "nat set" where
  "hex_chars = set (lit ''0123456789abcdef'')"

text \<open>The two error dictionaries the methods return.\<close>

definition missing_configuration :: pydict where
  "missing_configuration = [''error'' \<mapsto> PStr (lit ''Missing configuration'')]"

definition no_request_code :: pydict where
  "no_request_code = [''error'' \<mapsto> PStr (lit ''No request code provided'')]"

section \<open>Auxiliary facts\<close>

lemma encodable_append: "encodable (a @ b) = (encodable a \<and> encodable b)"
  by (simp add: encodable_def)

lemma utf8_bytes_append: "utf8_bytes (a @ b) = utf8_bytes a @ utf8_bytes b"
  by (simp add: utf8_bytes_def)

lemma encode_eq: "encode s = (if encodable s then Inr (utf8_bytes s) else Inl UnicodeEncodeError)"
  by (induction s) (simp_all add: encodable_def utf8_bytes_def)

lemma length_word_bytes: "length (word_bytes w) = 4"
  by (simp add: word_bytes_def)

lemma length_state_bytes: "length (state_bytes s) = 32"
  by (cases s rule: state_bytes.cases) (simp add: length_word_bytes)

lemma length_sha256: "length (sha256 m) = 32"
  by (simp add: sha256_def length_state_bytes)

lemma length_hexdigest: "length (hexdigest bs) = 2 * length bs"
  by (induction bs) (simp_all add: hexdigest_def)

lemma word_bytes_bound: "b \<in> set (word_bytes w) \<Longrightarrow> b < 256"
  by (auto simp: word_bytes_def)

lemma state_bytes_bound: "b \<in> set (state_bytes s) \<Longrightarrow> b < 256"
  by (cases s rule: state_bytes.cases) (auto dest: word_bytes_bound)

lemma sha256_bound: "b \<in> set (sha256 m) \<Longrightarrow> b < 256"
  by (simp add: sha256_def state_bytes_bound)

lemma hex_chars_eq: "hex_chars = {48, 49, 50, 51, 52, 53, 54, 55, 56, 57, 97, 98, 99, 100, 101, 102}"
  by (simp add: hex_chars_def lit_def)

lemma below_16: "(n::nat) < 16 \<Longrightarrow> n \<in> {0, 1, 2, 3, 4, 5, 6, 7, 8, 9, 10, 11, 12, 13, 14, 15}"
  by simp presburger

lemma hex_digit_in: "n < 16 \<Longrightarrow> hex_digit n \<in> hex_chars"
  using below_16 [of n] by (auto simp: hex_digit_def hex_chars_eq)

lemma set_hexdigest: "\<forall>b\<in>set bs. b < 256 \<Longrightarrow> set (hexdigest bs) \<subseteq> hex_chars"
  by (induction bs) (auto simp: hexdigest_def intro!: hex_digit_in)

lemma digest_length: "length (hexdigest (sha256 m)) = 64"
  by (simp add: length_hexdigest length_sha256)

lemma digest_chars: "set (hexdigest (sha256 m)) \<subseteq> hex_chars"
  by (rule set_hexdigest) (simp add: sha256_bound)


lemma replicate_numeral: "replicate (numeral v) x = x # replicate (numeral v - 1) x"
  by (simp add: numeral_eq_Suc)

lemmas sha256_eval =
  sha256_def sha256_pad_def be_bytes64_def replicate_numeral compress_def
  schedule_def schedule_step_def sha256_H0_def sha256_K_def
  small_sigma0_def small_sigma1_def big_sigma0_def big_sigma1_def Ch_def Maj_def not32_def
  rotr_def shr_def add32_def word_bytes_def hexdigest_def hex_digit_def

text \<open>The model against known digests, evaluated by rewriting.\<close>

lemma sha256_abc:
  "hexdigest (sha256 [0x61, 0x62, 0x63]) =
   lit ''ba7816bf8f01cfea414140de5dae2223b00361a396177a9cb410ff61f20015ad''"
  by (simp add: sha256_eval lit_def)

lemma example_bytes:
  "utf8_bytes (lit ''test_api_keytest_request_code_123test_api_secret'') =
   [116, 101, 115, 116, 95, 97, 112, 105, 95, 107, 101, 121,
    116, 101, 115, 116, 95, 114, 101, 113, 117, 101, 115, 116, 95, 99, 111, 100, 101, 95, 49, 50, 51,
    116, 101, 115, 116, 95, 97, 112, 105, 95, 115, 101, 99, 114, 101, 116]"
  by (simp add: utf8_bytes_def utf8_char_def lit_def)

lemma sha256_example:
  "hexdigest (sha256 (utf8_bytes (lit ''test_api_keytest_request_code_123test_api_secret''))) =
   lit ''534a9ee956c42477378b59deee7ce1cadeaeb683db40262a1b5461201e985d31''"
  unfolding example_bytes by (simp add: sha256_eval lit_def)

text \<open>A message of 56 bytes, padded to two blocks.\<close>

lemma two_block_bytes:
  "utf8_bytes (lit ''abcdbcdecdefdefgefghfghighijhijkijkljklmklmnlmnomnopnopq'') =
   [97, 98, 99, 100, 98, 99, 100, 101, 99, 100, 101, 102, 100, 101, 102, 103,
    101, 102, 103, 104, 102, 103, 104, 105, 103, 104, 105, 106, 104, 105, 106, 107,
    105, 106, 107, 108, 106, 107, 108, 109, 107, 108, 109, 110, 108, 109, 110, 111,
    109, 110, 111, 112, 110, 111, 112, 113]"
  by (simp add: utf8_bytes_def utf8_char_def lit_def)

lemma sha256_two_blocks:
  "hexdigest (sha256 (utf8_bytes (lit ''abcdbcdecdefdefgefghfghighijhijkijkljklmklmnlmnomnopnopq''))) =
   lit ''248d6a61d20638b8e5c026930c3e6039a33ce45964ff2167f6ecedd419db06c1''"
  unfolding two_block_bytes by (simp add: sha256_eval lit_def)

section \<open>What the methods compute\<close>

lemma simulate_eq:
  "simulate_sha256_hashing self rc =
     (if encodable (api_key self @ rc @ api_secret self)
      then (Inr [''api_key'' \<mapsto> PStr (api_key self),
                 ''api_secret'' \<mapsto>
                   PStr (hexdigest (sha256 (utf8_bytes (api_key self @ rc @ api_secret self)))),
                 ''request_code'' \<mapsto> PStr rc], self)
      else (Inl UnicodeEncodeError, self))"
  by (simp add: simulate_sha256_hashing_def encode_eq)

lemma validate_eq:
  "validate_token_exchange self rc =
     (if rc = [] then (Inr no_request_code, self)
      else if encodable (api_key self @ rc @ api_secret self)
      then (Inr [''success'' \<mapsto> PBool True,
                 ''token'' \<mapsto> PStr (lit ''mock_token_'' @ take 8 rc),
                 ''expires_in'' \<mapsto> PInt 86400,
                 ''status'' \<mapsto> PStr (lit ''Ok'')], self)
      else (Inl UnicodeEncodeError, self))"
  by (simp add: validate_token_exchange_def simulate_eq no_request_code_def)

lemma generate_eq:
  "generate_login_url self =
     (if api_key self = [] \<or> redirect_uri self = [] then (Inr missing_configuration, self)
      else (Inr [''success'' \<mapsto> PBool True,
                 ''loginUrl'' \<mapsto> PStr (auth_portal self @ lit ''?app_key='' @ api_key self
                    @ lit ''&redirect_uri='' @ redirect_uri self)], self))"
  by (simp add: generate_login_url_def missing_configuration_def)

lemma success_not_error:
  "[''success'' \<mapsto> a, ''loginUrl'' \<mapsto> b] \<noteq> missing_configuration"
proof
  assume "[''success'' \<mapsto> a, ''loginUrl'' \<mapsto> b] = missing_configuration"
  then have "[''success'' \<mapsto> a, ''loginUrl'' \<mapsto> b] ''error'' = missing_configuration ''error''"
    by simp
  then show False by (simp add: missing_configuration_def)
qed

lemma sublist_mid: "sublist b (a @ b @ c)"
  by (auto simp: sublist_def)

lemma sublist_key: "sublist k (login_url_spec k r p)"
  unfolding login_url_spec_def using sublist_mid [of k "p @ lit ''?app_key=''" "lit ''&redirect_uri='' @ r"]
  by simp

lemma sublist_uri: "sublist r (login_url_spec k r p)"
  unfolding login_url_spec_def
  using sublist_mid [of r "p @ lit ''?app_key='' @ k @ lit ''&redirect_uri=''" "[]"]
  by simp

lemma encodable_init: "encodable (api_key init)" "encodable (api_secret init)"
  by (simp_all add: init_def lit_def encodable_def is_surrogate_def)

lemma encodable_abc123: "encodable (lit ''abc123'')"
  by (simp add: lit_def encodable_def is_surrogate_def)

lemma not_encodable_surrogate:
  "\<not> encodable [0xD800]" "\<not> encodable [0xDC00]" "\<not> encodable [0xDFFF]"
  by (simp_all add: encodable_def is_surrogate_def)

lemma exchange_secret_spec_eq:
  "exchange_secret_spec k c s = hexdigest (sha256 (utf8_bytes (k @ c @ s)))"
  by (simp add: exchange_secret_spec_def utf8_bytes_append)

lemma example_input:
  "api_key init @ lit ''test_request_code_123'' @ api_secret init =
   lit ''test_api_keytest_request_code_123test_api_secret''"
  by (simp add: init_def lit_def)

lemma token_not_error:
  "[''success'' \<mapsto> a, ''token'' \<mapsto> b, ''expires_in'' \<mapsto> c, ''status'' \<mapsto> d] ''error'' = None"
  by simp

lemma login_not_error: "[''success'' \<mapsto> a, ''loginUrl'' \<mapsto> b] ''error'' = None"
  by simp

lemma payload_not_error:
  "[''api_key'' \<mapsto> a, ''api_secret'' \<mapsto> b, ''request_code'' \<mapsto> c] ''error'' = None"
  by simp

lemma no_request_code_error: "no_request_code ''error'' \<noteq> None"
  by (simp add: no_request_code_def)

lemma validate_error_iff:
  "fst (validate_token_exchange self rc) = Inr no_request_code \<longleftrightarrow> rc = []"
proof (cases "rc = []")
  case True
  then show ?thesis by (simp add: validate_eq)
next
  case False
  have "[''success'' \<mapsto> PBool True, ''token'' \<mapsto> PStr (lit ''mock_token_'' @ take 8 rc),
         ''expires_in'' \<mapsto> PInt 86400, ''status'' \<mapsto> PStr (lit ''Ok'')] \<noteq> no_request_code"
    using token_not_error no_request_code_error by metis
  with False show ?thesis by (simp add: validate_eq)
qed

lemma validate_error_dict:
  "fst (validate_token_exchange self rc) = Inr d \<Longrightarrow> d ''error'' \<noteq> None \<Longrightarrow> d = no_request_code"
  using token_not_error by (auto simp: validate_eq split: if_splits)

lemma validate_raise:
  "fst (validate_token_exchange self rc) = Inl e \<Longrightarrow>
     e = UnicodeEncodeError \<and> rc \<noteq> [] \<and> \<not> encodable (api_key self @ rc @ api_secret self)"
  by (auto simp: validate_eq split: if_splits)

lemma generate_error_dict:
  "fst (generate_login_url self) = Inr d \<Longrightarrow> d ''error'' \<noteq> None \<Longrightarrow> d = missing_configuration"
  using login_not_error by (auto simp: generate_eq split: if_splits)

lemma generate_no_raise: "fst (generate_login_url self) \<noteq> Inl e"
  by (simp add: generate_eq)

lemma simulate_no_error_dict: "fst (simulate_sha256_hashing self rc) = Inr d \<Longrightarrow> d ''error'' = None"
  using payload_not_error by (auto simp: simulate_eq split: if_splits)

lemma simulate_raise:
  "fst (simulate_sha256_hashing self rc) = Inl e \<Longrightarrow>
     e = UnicodeEncodeError \<and> \<not> encodable (api_key self @ rc @ api_secret self)"
  by (auto simp: simulate_eq split: if_splits)

section \<open>The exchange secret\<close>

text \<open>
  Claim C1, as amended. For every \<open>api_key\<close>, request code and \<open>api_secret\<close> without
  surrogate code points, \<open>simulate_sha256_hashing\<close> returns a payload whose
  \<open>api_secret\<close> entry is the lowercase hexadecimal SHA-256 digest, 64 characters long, of
  the UTF-8 bytes of the three strings concatenated in this order. On the configuration of
  \<open>__init__\<close> and the request code \<open>test_request_code_123\<close> it is the digest of the
  literal \<open>test_api_keytest_request_code_123test_api_secret\<close>, that is
  \<open>534a9ee9...1e985d31\<close>.
\<close>

theorem hashing_computes_exchange_secret:
  "(encodable (api_key self) \<and> encodable request_code \<and> encodable (api_secret self) \<longrightarrow>
      (\<exists>payload. fst (simulate_sha256_hashing self request_code) = Inr payload \<and>
         payload ''api_secret'' =
           Some (PStr (exchange_secret_spec (api_key self) request_code (api_secret self)))) \<and>
      length (exchange_secret_spec (api_key self) request_code (api_secret self)) = 64 \<and>
      set (exchange_secret_spec (api_key self) request_code (api_secret self)) \<subseteq> hex_chars) \<and>
   (\<exists>payload. fst (simulate_sha256_hashing init (lit ''test_request_code_123'')) = Inr payload \<and>
      payload ''api_secret'' =
        Some (PStr (hexdigest (sha256 (utf8_bytes
          (lit ''test_api_keytest_request_code_123test_api_secret'')))))) \<and>
   hexdigest (sha256 (utf8_bytes (lit ''test_api_keytest_request_code_123test_api_secret''))) =
     lit ''534a9ee956c42477378b59deee7ce1cadeaeb683db40262a1b5461201e985d31''"
proof (intro conjI impI)
  assume enc: "encodable (api_key self) \<and> encodable request_code \<and> encodable (api_secret self)"
  then show "\<exists>payload. fst (simulate_sha256_hashing self request_code) = Inr payload \<and>
      payload ''api_secret'' =
        Some (PStr (exchange_secret_spec (api_key self) request_code (api_secret self)))"
    by (simp add: simulate_eq encodable_append exchange_secret_spec_eq)
next
  show "length (exchange_secret_spec (api_key self) request_code (api_secret self)) = 64"
    by (simp add: exchange_secret_spec_def digest_length)
next
  show "set (exchange_secret_spec (api_key self) request_code (api_secret self)) \<subseteq> hex_chars"
    by (simp add: exchange_secret_spec_def digest_chars)
next
  have "encodable (api_key init @ lit ''test_request_code_123'' @ api_secret init)"
    by (simp add: init_def lit_def encodable_def is_surrogate_def)
  then show "\<exists>payload. fst (simulate_sha256_hashing init (lit ''test_request_code_123'')) = Inr payload \<and>
      payload ''api_secret'' =
        Some (PStr (hexdigest (sha256 (utf8_bytes
          (lit ''test_api_keytest_request_code_123test_api_secret'')))))"
    by (simp add: simulate_eq example_input)
next
  show "hexdigest (sha256 (utf8_bytes (lit ''test_api_keytest_request_code_123test_api_secret''))) =
     lit ''534a9ee956c42477378b59deee7ce1cadeaeb683db40262a1b5461201e985d31''"
    by (rule sha256_example)
qed

text \<open>
  An instance of C1: the configuration of \<open>__init__\<close> with the request code
  \<open>abc123\<close>.
\<close>

theorem hashing_computes_exchange_secret_witness:
  "encodable (api_key init) \<and> encodable (lit ''abc123'') \<and> encodable (api_secret init) \<and>
   (\<exists>payload. fst (simulate_sha256_hashing init (lit ''abc123'')) = Inr payload \<and>
      payload ''api_secret'' =
        Some (PStr (exchange_secret_spec (api_key init) (lit ''abc123'') (api_secret init)))) \<and>
   length (exchange_secret_spec (api_key init) (lit ''abc123'') (api_secret init)) = 64"
  using hashing_computes_exchange_secret [of init "lit ''abc123''"] encodable_init encodable_abc123
  by blast

text \<open>
  C1 as first stated, for every request code, fails: the string made of the lone surrogate
  \<open>U+D800\<close> has no UTF-8 encoding, \<open>encode\<close> raises and no digest is returned.
\<close>

theorem hashing_raises_on_surrogate:
  "fst (simulate_sha256_hashing init [0xD800]) = Inl UnicodeEncodeError"
  by (simp add: simulate_eq encodable_def is_surrogate_def)

section \<open>Login URL\<close>

text \<open>
  Claim C2. \<open>generate_login_url\<close> returns the error dictionary
  \<open>{"error": "Missing configuration"}\<close> exactly when \<open>api_key\<close> or \<open>redirect_uri\<close> is
  empty. For non-empty \<open>api_key\<close> and \<open>redirect_uri\<close> it returns the success dictionary
  whose \<open>loginUrl\<close> is \<open>auth_portal\<close> followed by \<open>?app_key=\<close>, the key,
  \<open>&redirect_uri=\<close> and the redirect URI, copied as they are (nothing is URL-encoded), so
  that both occur in the URL as contiguous substrings.
\<close>

theorem generate_login_url_contract:
  "(fst (generate_login_url self) = Inr missing_configuration
      \<longleftrightarrow> api_key self = [] \<or> redirect_uri self = []) \<and>
   (api_key self \<noteq> [] \<and> redirect_uri self \<noteq> [] \<longrightarrow>
      fst (generate_login_url self) =
        Inr [''success'' \<mapsto> PBool True,
             ''loginUrl'' \<mapsto>
               PStr (login_url_spec (api_key self) (redirect_uri self) (auth_portal self))] \<and>
      sublist (api_key self)
        (login_url_spec (api_key self) (redirect_uri self) (auth_portal self)) \<and>
      sublist (redirect_uri self)
        (login_url_spec (api_key self) (redirect_uri self) (auth_portal self)))"
  by (simp add: generate_eq success_not_error sublist_key sublist_uri login_url_spec_def [symmetric])

text \<open>
  An instance of C2: the login URL of the configuration of \<open>__init__\<close>.
\<close>

theorem generate_login_url_contract_witness:
  "api_key init \<noteq> [] \<and> redirect_uri init \<noteq> [] \<and>
   fst (generate_login_url init) =
     Inr [''success'' \<mapsto> PBool True,
          ''loginUrl'' \<mapsto> PStr (lit
            ''https://auth.flattrade.in/?app_key=test_api_key&redirect_uri=http://localhost:5000/api/auth/callback'')]"
  using generate_login_url_contract [of init]
  by (simp add: init_def lit_def login_url_spec_def)

section \<open>Token exchange\<close>

text \<open>
  Claim C3, as amended. For every non-empty request code, when \<open>api_key\<close>, the request
  code and \<open>api_secret\<close> contain no surrogate code point, \<open>validate_token_exchange\<close>
  returns the success dictionary: the token is \<open>mock_token_\<close> followed by the first 8
  characters of the request code (the whole code when it is shorter), \<open>expires_in\<close> is
  86400 and the status is \<open>Ok\<close>.
\<close>

theorem token_exchange_success:
  assumes "request_code \<noteq> []"
    and "encodable (api_key self)" and "encodable request_code" and "encodable (api_secret self)"
  shows "fst (validate_token_exchange self request_code) =
           Inr [''success'' \<mapsto> PBool True,
                ''token'' \<mapsto> PStr (lit ''mock_token_'' @ take 8 request_code),
                ''expires_in'' \<mapsto> PInt 86400,
                ''status'' \<mapsto> PStr (lit ''Ok'')] \<and>
         take 8 request_code = (if length request_code < 8 then request_code else take 8 request_code) \<and>
         length (take 8 request_code) = min (length request_code) 8"
  using assms by (simp add: validate_eq encodable_append)

text \<open>
  An instance of C3: the request code \<open>abc123\<close> gives the token
  \<open>mock_token_abc123\<close>.
\<close>

theorem token_exchange_success_witness:
  "lit ''abc123'' \<noteq> [] \<and> encodable (api_key init) \<and> encodable (lit ''abc123'') \<and>
   encodable (api_secret init) \<and>
   fst (validate_token_exchange init (lit ''abc123'')) =
     Inr [''success'' \<mapsto> PBool True,
          ''token'' \<mapsto> PStr (lit ''mock_token_abc123''),
          ''expires_in'' \<mapsto> PInt 86400,
          ''status'' \<mapsto> PStr (lit ''Ok'')]"
proof -
  have ne: "lit ''abc123'' \<noteq> []"
    by (simp add: lit_def)
  have tk: "lit ''mock_token_'' @ take 8 (lit ''abc123'') = lit ''mock_token_abc123''"
    by (simp add: lit_def)
  show ?thesis
    using token_exchange_success [OF ne encodable_init(1) encodable_abc123 encodable_init(2)]
      ne encodable_init encodable_abc123
    by (simp add: tk)
qed

text \<open>
  C3 as first stated, for every non-empty request code, fails: on the one-character code
  \<open>U+D800\<close> the hashing step raises before the success dictionary is built.
\<close>

theorem token_exchange_raises_on_surrogate:
  "[0xD800] \<noteq> ([] :: pystr) \<and>
   fst (validate_token_exchange init [0xD800]) = Inl UnicodeEncodeError"
  by (simp add: validate_eq encodable_def is_surrogate_def)

section \<open>Failure conditions\<close>

text \<open>
  Claim C4, as amended. \<open>validate_token_exchange\<close> returns the error dictionary
  \<open>{"error": "No request code provided"}\<close> if and only if the request code is empty, and
  it is the only error dictionary this method returns; the only error dictionary of
  \<open>generate_login_url\<close> is \<open>{"error": "Missing configuration"}\<close>, and
  \<open>simulate_sha256_hashing\<close> returns none. Besides these two results, the hashing and
  the exchange of a non-empty code raise \<open>UnicodeEncodeError\<close>, and only when
  \<open>api_key\<close>, the request code or \<open>api_secret\<close> contains a surrogate code point;
  \<open>generate_login_url\<close> never raises.
\<close>

theorem failure_conditions:
  "(fst (validate_token_exchange self rc) = Inr no_request_code \<longleftrightarrow> rc = []) \<and>
   (\<forall>d. fst (validate_token_exchange self rc) = Inr d \<longrightarrow> d ''error'' \<noteq> None
      \<longrightarrow> d = no_request_code) \<and>
   (\<forall>e. fst (validate_token_exchange self rc) = Inl e \<longrightarrow>
      e = UnicodeEncodeError \<and> rc \<noteq> [] \<and> \<not> encodable (api_key self @ rc @ api_secret self)) \<and>
   (\<forall>d. fst (generate_login_url self) = Inr d \<longrightarrow> d ''error'' \<noteq> None
      \<longrightarrow> d = missing_configuration) \<and>
   (\<forall>e. fst (generate_login_url self) \<noteq> Inl e) \<and>
   (\<forall>d. fst (simulate_sha256_hashing self rc) = Inr d \<longrightarrow> d ''error'' = None) \<and>
   (\<forall>e. fst (simulate_sha256_hashing self rc) = Inl e \<longrightarrow>
      e = UnicodeEncodeError \<and> \<not> encodable (api_key self @ rc @ api_secret self))"
  using validate_error_iff [of self rc] validate_error_dict [of self rc]
    validate_raise [of self rc] generate_error_dict [of self] generate_no_raise [of self]
    simulate_no_error_dict [of self rc] simulate_raise [of self rc]
  by blast

text \<open>
  Instances of C4: the empty request code, and a request code that is a lone surrogate.
\<close>

theorem failure_conditions_witness:
  "fst (validate_token_exchange init []) = Inr no_request_code \<and>
   no_request_code ''error'' \<noteq> None \<and>
   fst (validate_token_exchange init [0xDC00]) = Inl UnicodeEncodeError \<and>
   \<not> encodable (api_key init @ [0xDC00] @ api_secret init)"
proof -
  have raise: "fst (validate_token_exchange init [0xDC00]) = Inl UnicodeEncodeError"
    by (simp add: validate_eq encodable_def is_surrogate_def)
  from failure_conditions [of init "[]"]
  have "fst (validate_token_exchange init []) = Inr no_request_code"
    by blast
  moreover from failure_conditions [of init "[0xDC00]"] raise
  have "\<not> encodable (api_key init @ [0xDC00] @ api_secret init)"
    by blast
  ultimately show ?thesis
    using raise no_request_code_error by blast
qed

text \<open>
  C4 as first stated (no failure besides the empty request code, two error kinds only)
  fails: the non-empty request code \<open>abc\<close> followed by \<open>U+DFFF\<close> makes the exchange
  raise \<open>UnicodeEncodeError\<close>.
\<close>

theorem token_exchange_third_failure:
  "lit ''abc'' @ [0xDFFF] \<noteq> [] \<and>
   fst (validate_token_exchange init (lit ''abc'' @ [0xDFFF])) = Inl UnicodeEncodeError"
  by (simp add: validate_eq encodable_def is_surrogate_def lit_def)

section \<open>Determinism of the hashing\<close>



section \<open>Results and exceptions\<close>

text \<open>
  Claim C6, as amended. \<open>generate_login_url\<close> returns a dictionary on every object,
  and \<open>validate_token_exchange\<close> on the empty request code. On strings without
  surrogate code points \<open>simulate_sha256_hashing\<close> and \<open>validate_token_exchange\<close>
  return a dictionary as well; when \<open>api_key\<close>, the request code or \<open>api_secret\<close>
  contains a surrogate, the hashing raises \<open>UnicodeEncodeError\<close>, and so does the
  exchange of a non-empty code.
\<close>

theorem operations_return:
  "(\<exists>d. fst (generate_login_url self) = Inr d) \<and>
   (\<exists>d. fst (validate_token_exchange self []) = Inr d) \<and>
   (encodable (api_key self) \<and> encodable rc \<and> encodable (api_secret self) \<longrightarrow>
      (\<exists>d. fst (simulate_sha256_hashing self rc) = Inr d) \<and>
      (\<exists>d. fst (validate_token_exchange self rc) = Inr d)) \<and>
   (\<not> (encodable (api_key self) \<and> encodable rc \<and> encodable (api_secret self)) \<longrightarrow>
      fst (simulate_sha256_hashing self rc) = Inl UnicodeEncodeError \<and>
      (rc \<noteq> [] \<longrightarrow> fst (validate_token_exchange self rc) = Inl UnicodeEncodeError))"
  by (simp add: generate_eq validate_eq simulate_eq encodable_append)

text \<open>
  An instance of C6: the configuration of \<open>__init__\<close> with the request code
  \<open>abc123\<close>.
\<close>

theorem operations_return_witness:
  "encodable (api_key init) \<and> encodable (lit ''abc123'') \<and> encodable (api_secret init) \<and>
   (\<exists>d. fst (simulate_sha256_hashing init (lit ''abc123'')) = Inr d) \<and>
   (\<exists>d. fst (validate_token_exchange init (lit ''abc123'')) = Inr d)"
  using operations_return [of init "lit ''abc123''"] encodable_init encodable_abc123
  by blast

text \<open>
  C6 as first stated (every input gives a returned value, nothing is raised) fails on the
  request code \<open>U+DC00\<close>: both methods raise.
\<close>

theorem operations_raise_on_surrogate:
  "fst (simulate_sha256_hashing init [0xDC00]) = Inl UnicodeEncodeError \<and>
   fst (validate_token_exchange init [0xDC00]) = Inl UnicodeEncodeError"
  by (simp add: simulate_eq validate_eq encodable_def is_surrogate_def)

section \<open>Purity\<close>

text \<open>
  Claim C7. The three methods leave the object as it was, all five configuration
  attributes included, and what they return or raise depends only on their argument and
  on these five attributes: objects that agree on them, whatever else they carry, give the
  same outcomes.
\<close>

theorem methods_pure:
  "snd (generate_login_url s) = s \<and>
   snd (simulate_sha256_hashing s rc) = s \<and>
   snd (validate_token_exchange s rc) = s \<and>
   (same_configuration s t \<longrightarrow>
      fst (generate_login_url s) = fst (generate_login_url t) \<and>
      fst (simulate_sha256_hashing s rc) = fst (simulate_sha256_hashing t rc) \<and>
      fst (validate_token_exchange s rc) = fst (validate_token_exchange t rc))"
  by (simp add: generate_eq simulate_eq validate_eq same_configuration_def)

text \<open>
  An instance of C7: the object of \<open>__init__\<close> and the same object carrying one more
  attribute.
\<close>

theorem methods_pure_witness:
  "same_configuration init (AuthenticationSimulator.extend init (42 :: nat)) \<and>
   fst (generate_login_url init) =
     fst (generate_login_url (AuthenticationSimulator.extend init (42 :: nat))) \<and>
   fst (validate_token_exchange init (lit ''abc123'')) =
     fst (validate_token_exchange (AuthenticationSimulator.extend init (42 :: nat)) (lit ''abc123'')) \<and>
   snd (validate_token_exchange init (lit ''abc123'')) = init"
proof -
  have same: "same_configuration init (AuthenticationSimulator.extend init (42 :: nat))"
    by (simp add: same_configuration_def AuthenticationSimulator.defs init_def)
  show ?thesis
    using methods_pure [of init "lit ''abc123''" "AuthenticationSimulator.extend init (42 :: nat)"] same
    by blast
qed

section \<open>Token exchange and the credentials\<close>




section \<open>The built-in smoke test\<close>


section \<open>The token-request payload\<close>

text \<open>
  Claim C10, as amended. For every request code, when \<open>api_key\<close>, the request code
  and \<open>api_secret\<close> contain no surrogate code point, \<open>simulate_sha256_hashing\<close>
  returns a dictionary of exactly three entries: \<open>api_key\<close> is the configured key,
  \<open>request_code\<close> the given code, both unchanged, and \<open>api_secret\<close> is the
  64-character SHA-256 hexadecimal digest of key, code and secret, in place of the secret.
\<close>

theorem hashing_payload:
  assumes "encodable (api_key self)" and "encodable request_code" and "encodable (api_secret self)"
  shows "fst (simulate_sha256_hashing self request_code) =
           Inr [''api_key'' \<mapsto> PStr (api_key self),
                ''api_secret'' \<mapsto>
                  PStr (exchange_secret_spec (api_key self) request_code (api_secret self)),
                ''request_code'' \<mapsto> PStr request_code] \<and>
         length (exchange_secret_spec (api_key self) request_code (api_secret self)) = 64"
  using assms
  by (simp add: simulate_eq encodable_append exchange_secret_spec_eq digest_length)

text \<open>
  An instance of C10: the configuration of \<open>__init__\<close> with the request code
  \<open>abc123\<close>.
\<close>

theorem hashing_payload_witness:
  "encodable (api_key init) \<and> encodable (lit ''abc123'') \<and> encodable (api_secret init) \<and>
   fst (simulate_sha256_hashing init (lit ''abc123'')) =
     Inr [''api_key'' \<mapsto> PStr (lit ''test_api_key''),
          ''api_secret'' \<mapsto>
            PStr (exchange_secret_spec (lit ''test_api_key'') (lit ''abc123'') (lit ''test_api_secret'')),
          ''request_code'' \<mapsto> PStr (lit ''abc123'')]"
proof -
  have fields: "api_key init = lit ''test_api_key''" "api_secret init = lit ''test_api_secret''"
    by (simp_all add: init_def)
  show ?thesis
    using hashing_payload [OF encodable_init(1) encodable_abc123 encodable_init(2)]
      encodable_init encodable_abc123
    by (simp add: fields)
qed

text \<open>
  C10 as first stated, for every request code and configuration, fails: with the
  \<open>api_secret\<close> a lone surrogate \<open>U+DFFF\<close> no payload is returned.
\<close>

theorem hashing_payload_raises_on_surrogate:
  "fst (simulate_sha256_hashing (init\<lparr>api_secret := [0xDFFF]\<rparr>) (lit ''abc'')) =
     Inl UnicodeEncodeError"
  by (simp add: simulate_eq encodable_def is_surrogate_def)

end
